theory Spec2Isabelle
  imports Complex_Main
begin

section \<open>The Keycloak device-authorization client (scripts/get_keycloak_device_token.py)\<close>

text \<open>
  The script is one sequential Python program. Its effects are modelled as a trace of
  events in program order, its inputs as a \<open>world\<close> that scripts what the operating
  system, the operator, the clock and the server deliver. Every \<open>sys.exit\<close>,
  \<open>return\<close> of \<open>main\<close> and uncaught exception is a value of \<open>outcome\<close>.
\<close>

subsection \<open>JSON values as \<open>json.loads\<close> builds them\<close>

text \<open>
  A Python float is a finite double (modelled by the rational it denotes), an infinity
  (\<open>True\<close> for the negative one) or a NaN; \<open>json.loads\<close> accepts all three. A dict is
  an association list; \<open>json.loads\<close> never builds duplicate keys.
\<close>

datatype pyfloat = Finite rat | Infinity bool | NaN

datatype json =
    JNull
  | JBool bool
  | JInt int
  | JFloat pyfloat
  | JStr string
  | JArr "json list"
  | JObj "(string \<times> json) list"

datatype exc =
    TypeError | AttributeError | ValueError | OverflowError
  | UnicodeDecodeError | TransportError | EOFError

text \<open>Python truthiness, as used by \<open>not x\<close> and \<open>x or y\<close>.\<close>

fun truthy :: "json \<Rightarrow> bool" where
  "truthy JNull = False"
| "truthy (JBool b) = b"
| "truthy (JInt n) = (n \<noteq> 0)"
| "truthy (JFloat (Finite q)) = (q \<noteq> 0)"
| "truthy (JFloat (Infinity s)) = True"
| "truthy (JFloat NaN) = True"
| "truthy (JStr s) = (s \<noteq> [])"
| "truthy (JArr xs) = (xs \<noteq> [])"
| "truthy (JObj kvs) = (kvs \<noteq> [])"

definition py_or :: "json \<Rightarrow> json \<Rightarrow> json" where
  "py_or a b = (if truthy a then a else b)"

fun is_prefix :: "string \<Rightarrow> string \<Rightarrow> bool" where
  "is_prefix [] ys = True"
| "is_prefix (x # xs) [] = False"
| "is_prefix (x # xs) (y # ys) = (x = y \<and> is_prefix xs ys)"

fun substring :: "string \<Rightarrow> string \<Rightarrow> bool" where
  "substring k [] = (k = [])"
| "substring k (c # cs) = (is_prefix k (c # cs) \<or> substring k cs)"

text \<open>
  \<open>k in v\<close> for a string \<open>k\<close>: key membership on a dict, element membership on a list,
  substring test on a string, \<open>TypeError\<close> on everything else.
\<close>

fun py_contains :: "json \<Rightarrow> string \<Rightarrow> exc + bool" where
  "py_contains (JObj kvs) k = Inr (map_of kvs k \<noteq> None)"
| "py_contains (JArr xs) k = Inr (List.member xs (JStr k))"
| "py_contains (JStr s) k = Inr (substring k s)"
| "py_contains v k = Inl TypeError"

text \<open>
  \<open>v.get(k, d)\<close>: only a dict has the method; \<open>v.get(k)\<close> is \<open>py_get v k JNull\<close>,
  Python's \<open>None\<close> being the value of JSON's \<open>null\<close>.
\<close>

definition dict_get :: "(string \<times> json) list \<Rightarrow> string \<Rightarrow> json \<Rightarrow> json" where
  "dict_get kvs k d = (case map_of kvs k of None \<Rightarrow> d | Some v \<Rightarrow> v)"

fun py_get :: "json \<Rightarrow> string \<Rightarrow> json \<Rightarrow> exc + json" where
  "py_get (JObj kvs) k d = Inr (dict_get kvs k d)"
| "py_get v k d = Inl AttributeError"

definition py_trunc :: "rat \<Rightarrow> int" where
  "py_trunc q = (if 0 \<le> q then \<lfloor>q\<rfloor> else \<lceil>q\<rceil>)"

text \<open>
  \<open>int(v)\<close>. What \<open>int\<close> makes of a string (signs, blanks, underscores, the digits of
  every script, the limit on the number of digits) is the interpreter's business: it is
  the parameter \<open>int_of_str\<close>, \<open>None\<close> where \<open>int\<close> raises \<open>ValueError\<close>.
\<close>

fun py_int :: "(string \<Rightarrow> int option) \<Rightarrow> json \<Rightarrow> exc + int" where
  "py_int int_of_str (JInt n) = Inr n"
| "py_int int_of_str (JBool b) = Inr (if b then 1 else 0)"
| "py_int int_of_str (JFloat (Finite q)) = Inr (py_trunc q)"
| "py_int int_of_str (JFloat (Infinity s)) = Inl OverflowError"
| "py_int int_of_str (JFloat NaN) = Inl ValueError"
| "py_int int_of_str (JStr s) =
     (case int_of_str s of None \<Rightarrow> Inl ValueError | Some n \<Rightarrow> Inr n)"
| "py_int int_of_str v = Inl TypeError"

definition rstrip :: "string \<Rightarrow> string \<Rightarrow> string" where
  "rstrip chars s = rev (dropWhile (\<lambda>c. c \<in> set chars) (rev s))"

subsection \<open>Events, outcomes and the world\<close>

datatype fd = Stdout | Stderr

text \<open>
  A printed line is a list of fragments: literal text, \<open>str(v)\<close> of a JSON value (what
  \<open>print(v)\<close> and an f-string write), or \<open>json.dumps(v, indent=2)\<close>.
\<close>

datatype frag = Lit string | Str json | Dumps json

datatype event =
    Print fd "frag list"
  | Post string "(string \<times> json) list"
  | Sleep int
  | Input string
  | Clock rat

text \<open>
  The process ends by \<open>sys.exit(n)\<close> or \<open>raise SystemExit(main())\<close>, or by an
  exception nobody catches: the interpreter then writes a traceback to standard error
  and the exit status is 1.
\<close>

datatype outcome = Exit int | Uncaught exc

fun exit_status :: "outcome \<Rightarrow> int" where
  "exit_status (Exit n) = n"
| "exit_status (Uncaught e) = 1"

text \<open>
  A step of the program returns a value, stops the process, or is \<open>Blocked\<close>: the
  script of the world has run out and the program is waiting (for a reply, or for the
  clock to be read again after a sleep).
\<close>

datatype 'a res = Ret 'a | Stop outcome | Blocked

type_synonym 'a step = "event list \<times> 'a res"

definition then_do :: "'a step \<Rightarrow> ('a \<Rightarrow> 'b step) \<Rightarrow> 'b step" where
  "then_do m f =
     (case m of
        (evs, Ret x) \<Rightarrow> (case f x of (evs', r) \<Rightarrow> (evs @ evs', r))
      | (evs, Stop out) \<Rightarrow> (evs, Stop out)
      | (evs, Blocked) \<Rightarrow> (evs, Blocked))"

definition raising :: "exc + 'a \<Rightarrow> 'a step" where
  "raising x = (case x of Inl e \<Rightarrow> ([], Stop (Uncaught e)) | Inr v \<Rightarrow> ([], Ret v))"

definition emit :: "event list \<Rightarrow> 'a step \<Rightarrow> 'a step" where
  "emit evs m = (case m of (evs', r) \<Rightarrow> (evs @ evs', r))"

text \<open>
  What lines 20 to 30 make of one HTTP exchange. Either no body arrives: \<open>Request\<close>
  rejects the URL, there is no connection, or the status is outside 2xx, which
  \<open>urllib\<close> turns into \<open>HTTPError\<close>; whatever is raised there, nobody catches it, and
  it is recorded as \<open>TransportError\<close>. Or a body arrives that \<open>decode("utf-8")\<close>
  rejects; or the body decodes to a text that \<open>json.loads\<close> rejects with
  \<open>JSONDecodeError\<close>; or \<open>json.loads\<close> returns a value. \<open>urlencode\<close> is taken to
  succeed: the form fields are texts it can encode.
\<close>

datatype http_reply =
    No_response
  | Undecodable string
  | Non_json string
  | Json json

text \<open>
  \<open>parse_args\<close> either returns the namespace (the value of \<open>args.json\<close>) or leaves
  the process itself (usage error, \<open>--help\<close>).
\<close>

datatype cli = Parsed bool | Usage_exit int

record world =
  cli :: cli
  environ :: "string \<rightharpoonup> string"
  int_of_str :: "string \<Rightarrow> int option"
  sleep_limit :: int
  stdin :: "string option"
  replies :: "http_reply list"
  clock :: "rat list"

subsection \<open>\<open>require_env\<close> (lines 11 to 16)\<close>

definition require_env :: "(string \<rightharpoonup> string) \<Rightarrow> string \<Rightarrow> string step" where
  "require_env env name =
     (case env name of
        None \<Rightarrow> ([Print Stderr [Lit (name @ '' is required'')]], Stop (Exit 1))
      | Some v \<Rightarrow>
          if v = [] then ([Print Stderr [Lit (name @ '' is required'')]], Stop (Exit 1))
          else ([], Ret v))"

subsection \<open>\<open>post_form\<close> (lines 19 to 34)\<close>

text \<open>
  One call is one \<open>Post\<close> event and consumes one scripted reply; it returns the parsed
  value together with the replies still to come.
\<close>

definition post_form ::
  "string \<Rightarrow> (string \<times> json) list \<Rightarrow> http_reply list
     \<Rightarrow> (json \<times> http_reply list) step" where
  "post_form url data rs =
     (case rs of
        [] \<Rightarrow> ([Post url data], Blocked)
      | No_response # rs' \<Rightarrow> ([Post url data], Stop (Uncaught TransportError))
      | Undecodable body # rs' \<Rightarrow> ([Post url data], Stop (Uncaught UnicodeDecodeError))
      | Non_json payload # rs' \<Rightarrow>
          ([Post url data, Print Stdout [Lit ''Non-JSON response:''],
            Print Stdout [Lit payload]], Stop (Exit 1))
      | Json v # rs' \<Rightarrow> ([Post url data], Ret (v, rs')))"

subsection \<open>\<open>main\<close>: configuration and endpoints (lines 44 to 51)\<close>

record config =
  keycloak_url :: string
  realm :: string
  client_id :: string
  client_secret :: string
  scope :: string

definition load_config :: "(string \<rightharpoonup> string) \<Rightarrow> config step" where
  "load_config env =
     then_do (require_env env ''KEYCLOAK_URL'') (\<lambda>u.
     then_do (require_env env ''REALM'') (\<lambda>r.
     then_do (require_env env ''CLIENT_ID'') (\<lambda>i.
     then_do (require_env env ''CLIENT_SECRET'') (\<lambda>s.
       ([], Ret \<lparr>keycloak_url = u, realm = r, client_id = i, client_secret = s,
                 scope = (case env ''SCOPE'' of
                            None \<Rightarrow> ''openid email profile groups''
                          | Some sc \<Rightarrow> sc)\<rparr>)))))"

definition device_endpoint :: "config \<Rightarrow> string" where
  "device_endpoint c =
     rstrip ''/'' (keycloak_url c) @ ''/realms/'' @ realm c
       @ ''/protocol/openid-connect/auth/device''"

definition token_endpoint :: "config \<Rightarrow> string" where
  "token_endpoint c =
     rstrip ''/'' (keycloak_url c) @ ''/realms/'' @ realm c
       @ ''/protocol/openid-connect/token''"

subsection \<open>\<open>main\<close>: device authorization (lines 53 to 85)\<close>

text \<open>The local variables that the poll loop reads.\<close>

record device_auth =
  device_code :: json
  interval :: int
  expires_in :: int

definition device_form :: "config \<Rightarrow> (string \<times> json) list" where
  "device_form c =
     [(''client_id'', JStr (client_id c)),
      (''client_secret'', JStr (client_secret c)),
      (''scope'', JStr (scope c))]"

definition instructions :: "json \<Rightarrow> json \<Rightarrow> int \<Rightarrow> event list" where
  "instructions verification_uri user_code ex =
     [Print Stdout [Lit (CHR 0x0A # ''Open the following URL and enter the code:'')],
      Print Stdout [Lit ''  '', Str verification_uri],
      Print Stdout [Lit ''Code:''],
      Print Stdout [Lit ''  '', Str user_code],
      Print Stdout [Lit (CHR 0x0A # ''Device code expires in ''), Str (JInt ex), Lit ''s''],
      Input (CHR 0x0A # ''Press ENTER after completing login in the browser...'')]"

definition initiate :: "world \<Rightarrow> config \<Rightarrow> (device_auth \<times> http_reply list) step" where
  "initiate w c =
     then_do (post_form (device_endpoint c) (device_form c) (replies w)) (\<lambda>(init_resp, rs).
     then_do (raising (py_contains init_resp ''error'')) (\<lambda>has_error.
       if has_error then
         then_do (raising (py_get init_resp ''error_description'' JNull)) (\<lambda>desc.
           if truthy desc then ([Print Stderr [Str desc]], Stop (Exit 1))
           else then_do (raising (py_get init_resp ''error'' JNull)) (\<lambda>err.
                  ([Print Stderr [Str err]], Stop (Exit 1))))
       else
         then_do (raising (py_get init_resp ''device_code'' JNull)) (\<lambda>dc.
         then_do (raising (py_get init_resp ''user_code'' JNull)) (\<lambda>uc.
         then_do (raising (py_get init_resp ''verification_uri'' JNull)) (\<lambda>v1.
         then_do (if truthy v1 then ([], Ret v1)
                  else raising (py_get init_resp ''verification_uri_complete'' JNull)) (\<lambda>uri.
         then_do (raising (py_get init_resp ''interval'' (JInt 5))) (\<lambda>iv_raw.
         then_do (raising (py_int (int_of_str w) iv_raw)) (\<lambda>iv.
         then_do (raising (py_get init_resp ''expires_in'' (JInt 600))) (\<lambda>ex_raw.
         then_do (raising (py_int (int_of_str w) ex_raw)) (\<lambda>ex.
           if \<not> truthy dc \<or> \<not> truthy uc \<or> \<not> truthy uri then
             ([Print Stderr [Lit ''Missing device_code/user_code/verification_uri''],
               Print Stdout [Dumps init_resp]], Stop (Exit 1))
           else
             emit (instructions uri uc ex)
               (case stdin w of
                  None \<Rightarrow> ([], Stop (Uncaught EOFError))
                | Some line \<Rightarrow>
                    ([], Ret (\<lparr>device_code = dc, interval = iv, expires_in = ex\<rparr>,
                              rs)))))))))))))"

subsection \<open>\<open>main\<close>: the poll loop (lines 87 to 119)\<close>

definition token_form :: "config \<Rightarrow> device_auth \<Rightarrow> (string \<times> json) list" where
  "token_form c da =
     [(''grant_type'', JStr ''urn:ietf:params:oauth:grant-type:device_code''),
      (''device_code'', device_code da),
      (''client_id'', JStr (client_id c)),
      (''client_secret'', JStr (client_secret c))]"

text \<open>
  \<open>time.sleep(secs)\<close> raises \<open>ValueError\<close> on a negative length and \<open>OverflowError\<close>
  on one beyond what the platform's timestamp holds (\<open>cap\<close>).
\<close>

definition py_sleep :: "int \<Rightarrow> int \<Rightarrow> unit step" where
  "py_sleep cap secs =
     (if secs < 0 then ([], Stop (Uncaught ValueError))
      else if cap < secs then ([], Stop (Uncaught OverflowError))
      else ([Sleep secs], Ret ()))"

definition expired_msg :: string where
  "expired_msg = ''Device code expired. Run the script again.''"

text \<open>
  Lines 103 to 119, what one iteration does with the parsed reply. \<open>Ret ()\<close> is the
  \<open>continue\<close> of line 107; every \<open>return\<close> is a \<open>Stop\<close>.
\<close>

definition token_step :: "bool \<Rightarrow> int \<Rightarrow> int \<Rightarrow> json \<Rightarrow> unit step" where
  "token_step js cap iv token_resp =
     then_do (raising (py_contains token_resp ''error'')) (\<lambda>has_error.
       if has_error then
         then_do (raising (py_get token_resp ''error'' JNull)) (\<lambda>err.
           if err = JStr ''authorization_pending'' \<or> err = JStr ''slow_down''
           then py_sleep cap iv
           else then_do (raising (py_get token_resp ''error_description'' JNull)) (\<lambda>desc.
                  ([Print Stderr [Str (py_or desc err)]], Stop (Exit 1))))
       else if js then ([Print Stdout [Dumps token_resp]], Stop (Exit 0))
       else
         then_do (raising (py_get token_resp ''access_token'' JNull)) (\<lambda>access_token.
           if \<not> truthy access_token
           then ([Print Stderr [Lit ''No access_token returned'']], Stop (Exit 1))
           else ([Print Stdout [Str access_token]], Stop (Exit 0))))"

text \<open>
  The loop reads the clock once per iteration (line 89); \<open>time.time() - start\<close> is taken
  exactly. It never leaves by \<open>Ret\<close>.
\<close>

fun poll_loop ::
  "bool \<Rightarrow> config \<Rightarrow> device_auth \<Rightarrow> int \<Rightarrow> rat \<Rightarrow> rat list \<Rightarrow> http_reply list
     \<Rightarrow> unit step" where
  "poll_loop js c da cap start [] rs = ([], Blocked)"
| "poll_loop js c da cap start (now # clk) rs =
     emit [Clock now]
       (if of_int (expires_in da) \<le> now - start
        then ([Print Stderr [Lit expired_msg]], Stop (Exit 1))
        else
          then_do (post_form (token_endpoint c) (token_form c da) rs) (\<lambda>(token_resp, rs').
          then_do (token_step js cap (interval da) token_resp) (\<lambda>u.
            poll_loop js c da cap start clk rs')))"

definition main :: "world \<Rightarrow> unit step" where
  "main w =
     (case cli w of
        Usage_exit n \<Rightarrow> ([], Stop (Exit n))
      | Parsed js \<Rightarrow>
          then_do (load_config (environ w)) (\<lambda>c.
          then_do (initiate w c) (\<lambda>(da, rs).
            case clock w of
              [] \<Rightarrow> ([], Blocked)
            | start # clk \<Rightarrow>
                emit [Clock start] (poll_loop js c da (sleep_limit w) start clk rs))))"

subsection \<open>Predicates on traces, and concrete runs\<close>

text \<open>The variables \<open>require_env\<close> is called on, in the order of lines 44 to 47.\<close>

definition required :: "string list" where
  "required = [''KEYCLOAK_URL'', ''REALM'', ''CLIENT_ID'', ''CLIENT_SECRET'']"

text \<open>
  The shape of a poll-loop trace. At the top of an iteration the clock is read; if the
  reading has reached \<open>expires_in\<close> the expiration message follows and nothing else,
  otherwise a request follows. After a request no clock reading, no further request and
  no expiration message may come before a sleep returns the loop to its top.
\<close>

fun top_of_iteration :: "int \<Rightarrow> rat \<Rightarrow> event list \<Rightarrow> bool"
  and after_request :: "int \<Rightarrow> rat \<Rightarrow> event list \<Rightarrow> bool" where
  "top_of_iteration ex start [] = True"
| "top_of_iteration ex start (Clock now # evs) =
     (if of_int ex \<le> now - start
      then evs = [Print Stderr [Lit ''Device code expired. Run the script again.'']]
      else (case evs of Post url data # evs' \<Rightarrow> after_request ex start evs' | _ \<Rightarrow> False))"
| "top_of_iteration ex start (e # evs) = False"
| "after_request ex start [] = True"
| "after_request ex start (Sleep n # evs) = top_of_iteration ex start evs"
| "after_request ex start (Print fd t # evs) =
     ((fd, t) \<noteq> (Stderr, [Lit ''Device code expired. Run the script again.''])
      \<and> after_request ex start evs)"
| "after_request ex start (e # evs) = False"

text \<open>A configured environment and the replies of a server, for concrete runs.\<close>

definition demo_env :: "string \<rightharpoonup> string" where
  "demo_env =
     [''KEYCLOAK_URL'' \<mapsto> ''https://kc.example/'', ''REALM'' \<mapsto> ''r1'',
      ''CLIENT_ID'' \<mapsto> ''cid'', ''CLIENT_SECRET'' \<mapsto> ''sec'']"

definition demo_config :: config where
  "demo_config =
     \<lparr>keycloak_url = ''https://kc.example/'', realm = ''r1'', client_id = ''cid'',
      client_secret = ''sec'', scope = ''openid email profile groups''\<rparr>"

definition demo_auth :: device_auth where
  "demo_auth = \<lparr>device_code = JStr ''D1'', interval = 5, expires_in = 600\<rparr>"

definition demo_init :: "(string \<times> json) list" where
  "demo_init =
     [(''device_code'', JStr ''D1''), (''user_code'', JStr ''ABCD-EFGH''),
      (''verification_uri'', JStr ''https://auth.example/device''),
      (''interval'', JInt 5), (''expires_in'', JInt 600)]"

definition pending :: "(string \<times> json) list" where
  "pending = [(''error'', JStr ''authorization_pending'')]"

definition token_ok :: "(string \<times> json) list" where
  "token_ok = [(''access_token'', JStr ''TOK123''), (''token_type'', JStr ''Bearer'')]"

definition demo_world :: "bool \<Rightarrow> http_reply list \<Rightarrow> rat list \<Rightarrow> world" where
  "demo_world js rs clk =
     \<lparr>cli = Parsed js, environ = demo_env, int_of_str = (\<lambda>s. None),
      sleep_limit = 9223372036, stdin = Some [], replies = rs, clock = clk\<rparr>"


section \<open>Basic facts about the model\<close>

lemma then_do_Ret [simp]: "then_do (evs, Ret x) f = emit evs (f x)"
  by (simp add: then_do_def emit_def)

lemma then_do_Stop [simp]: "then_do (evs, Stop out) f = (evs, Stop out)"
  by (simp add: then_do_def)

lemma then_do_Blocked [simp]: "then_do (evs, Blocked) f = (evs, Blocked)"
  by (simp add: then_do_def)

lemma emit_pair [simp]: "emit evs (evs', r) = (evs @ evs', r)"
  by (simp add: emit_def)

lemma emit_Nil [simp]: "emit [] m = m"
  by (cases m) simp

lemma emit_emit [simp]: "emit a (emit b m) = emit (a @ b) m"
  by (cases m) simp

lemma then_do_emit [simp]: "then_do (emit evs m) f = emit evs (then_do m f)"
  by (cases m; cases "snd m") (auto simp: then_do_def emit_def split: prod.splits res.splits)

lemma raising_Inr [simp]: "raising (Inr v) = ([], Ret v)"
  by (simp add: raising_def)

lemma raising_Inl [simp]: "raising (Inl e) = ([], Stop (Uncaught e))"
  by (simp add: raising_def)

lemma fst_emit [simp]: "fst (emit evs m) = evs @ fst m"
  by (cases m) simp

lemma snd_emit [simp]: "snd (emit evs m) = snd m"
  by (cases m) simp

lemma post_form_Nil [simp]: "post_form url data [] = ([Post url data], Blocked)"
  by (simp add: post_form_def)

lemma post_form_Json [simp]:
  "post_form url data (Json v # rs) = ([Post url data], Ret (v, rs))"
  by (simp add: post_form_def)

lemma post_form_Non_json [simp]:
  "post_form url data (Non_json p # rs) =
     ([Post url data, Print Stdout [Lit ''Non-JSON response:''], Print Stdout [Lit p]],
      Stop (Exit 1))"
  by (simp add: post_form_def)

lemma post_form_Undecodable [simp]:
  "post_form url data (Undecodable b # rs) = ([Post url data], Stop (Uncaught UnicodeDecodeError))"
  by (simp add: post_form_def)

lemma post_form_No_response [simp]:
  "post_form url data (No_response # rs) = ([Post url data], Stop (Uncaught TransportError))"
  by (simp add: post_form_def)

lemma post_form_emits: "\<exists>evs r. post_form url data rs = (Post url data # evs, r)"
  by (cases rs; simp) (rename_tac r rs', case_tac r, auto)

lemma require_env_ok [simp]:
  "env name = Some v \<Longrightarrow> v \<noteq> [] \<Longrightarrow> require_env env name = ([], Ret v)"
  by (simp add: require_env_def)

lemma require_env_missing [simp]:
  "env name = None \<or> env name = Some [] \<Longrightarrow>
   require_env env name = ([Print Stderr [Lit (name @ '' is required'')]], Stop (Exit 1))"
  by (auto simp: require_env_def)

lemma present_or_missing:
  obtains (missing) "env name = None \<or> env name = Some []"
        | (present) v where "env name = Some v" "v \<noteq> []"
  by (cases "env name") auto

lemma load_config_missing:
  assumes "name \<in> set required" "env name = None \<or> env name = Some []"
  shows "\<exists>m \<in> set required.
           load_config env = ([Print Stderr [Lit (m @ '' is required'')]], Stop (Exit 1))"
proof (cases env "''KEYCLOAK_URL''" rule: present_or_missing)
  case missing
  then show ?thesis by (simp add: load_config_def required_def)
next
  case u: (present u)
  show ?thesis
  proof (cases env "''REALM''" rule: present_or_missing)
    case missing
    with u show ?thesis by (simp add: load_config_def required_def)
  next
    case r: (present r)
    show ?thesis
    proof (cases env "''CLIENT_ID''" rule: present_or_missing)
      case missing
      with u r show ?thesis by (simp add: load_config_def required_def)
    next
      case i: (present i)
      show ?thesis
      proof (cases env "''CLIENT_SECRET''" rule: present_or_missing)
        case missing
        with u r i show ?thesis by (simp add: load_config_def required_def)
      next
        case s: (present s)
        from assms u r i s have False by (auto simp: required_def)
        then show ?thesis ..
      qed
    qed
  qed
qed

lemma load_config_ok:
  assumes "env ''KEYCLOAK_URL'' = Some u" "u \<noteq> []" "env ''REALM'' = Some r" "r \<noteq> []"
    "env ''CLIENT_ID'' = Some i" "i \<noteq> []" "env ''CLIENT_SECRET'' = Some s" "s \<noteq> []"
  shows "load_config env = ([], Ret \<lparr>keycloak_url = u, realm = r, client_id = i, client_secret = s,
            scope = (case env ''SCOPE'' of None \<Rightarrow> ''openid email profile groups'' | Some sc \<Rightarrow> sc)\<rparr>)"
  using assms by (simp add: load_config_def)

lemma initiate_emits: "\<exists>evs r. initiate w c = (Post (device_endpoint c) (device_form c) # evs, r)"
proof -
  obtain evs r where p: "post_form (device_endpoint c) (device_form c) (replies w) = (Post (device_endpoint c) (device_form c) # evs, r)"
    using post_form_emits by blast
  show ?thesis
    unfolding initiate_def p
    by (cases r) (auto simp: emit_def split: prod.splits)
qed

lemma dict_get_absent [simp]: "map_of kvs k = None \<Longrightarrow> dict_get kvs k d = d"
  by (simp add: dict_get_def)

lemma dict_get_present [simp]: "map_of kvs k = Some v \<Longrightarrow> dict_get kvs k d = v"
  by (simp add: dict_get_def)


lemma poll_loop_live:
  "\<not> of_int (expires_in da) \<le> now - start \<Longrightarrow>
   poll_loop js c da cap start (now # clk) (Json v # rs) =
     emit [Clock now, Post (token_endpoint c) (token_form c da)]
       (then_do (token_step js cap (interval da) v)
          (\<lambda>u. poll_loop js c da cap start clk rs))"
  by simp




lemma token_step_json:
  "map_of kvs ''error'' = None \<Longrightarrow>
   token_step True cap iv (JObj kvs) = ([Print Stdout [Dumps (JObj kvs)]], Stop (Exit 0))"
  by (simp add: token_step_def)

lemma token_step_bare:
  "map_of kvs ''error'' = None \<Longrightarrow>
   token_step False cap iv (JObj kvs) =
     (let access_token = dict_get kvs ''access_token'' JNull
      in if truthy access_token then ([Print Stdout [Str access_token]], Stop (Exit 0))
         else ([Print Stderr [Lit ''No access_token returned'']], Stop (Exit 1)))"
  by (simp add: token_step_def Let_def)

lemma token_step_shape:
  "(\<exists>fd t out. token_step js cap iv v = ([Print fd t], Stop out)
       \<and> (fd, t) \<noteq> (Stderr, [Lit ''Device code expired. Run the script again.'']))
   \<or> (\<exists>out. token_step js cap iv v = ([], Stop out))
   \<or> token_step js cap iv v = ([Sleep iv], Ret ())"
proof (cases "py_contains v ''error''")
  case (Inl e)
  then show ?thesis by (simp add: token_step_def)
next
  case (Inr has_error)
  show ?thesis
  proof (cases "py_get v ''error'' JNull")
    case (Inl e)
    then have g: "\<And>k d. py_get v k d = Inl AttributeError"
      by (cases v) auto
    show ?thesis using Inr
      by (cases has_error; cases js) (simp_all add: token_step_def g)
  next
    case err: (Inr err)
    then obtain kvs where v: "v = JObj kvs" by (cases v) auto
    show ?thesis using Inr err unfolding v
      by (cases has_error; cases js)
        (auto simp: token_step_def py_sleep_def)
  qed
qed

lemma poll_loop_checks_first:
  "top_of_iteration (expires_in da) start (fst (poll_loop js c da cap start clk rs))"
proof (induction clk arbitrary: rs)
  case Nil
  show ?case by simp
next
  case (Cons now clk)
  show ?case
  proof (cases "of_int (expires_in da) \<le> now - start")
    case True
    then show ?thesis by (simp add: expired_msg_def)
  next
    case live: False
    show ?thesis
    proof (cases rs)
      case Nil
      with live show ?thesis by simp
    next
      case (Cons r rs')
      show ?thesis
      proof (cases r)
        case (Json v)
        from token_step_shape [of js cap "interval da" v]
        show ?thesis
          using live Cons.IH [of rs'] unfolding Cons Json
          by (auto simp: poll_loop_live simp del: poll_loop.simps)
      qed (use live Cons in \<open>simp_all add: expired_msg_def\<close>)
    qed
  qed
qed

lemma load_demo_config: "load_config demo_env = ([], Ret demo_config)"
  by (simp add: load_config_def demo_env_def demo_config_def require_env_def)

lemma demo_world_sel [simp]:
  "cli (demo_world js rs clk) = Parsed js" "environ (demo_world js rs clk) = demo_env"
  "replies (demo_world js rs clk) = rs" "clock (demo_world js rs clk) = clk"
  "stdin (demo_world js rs clk) = Some []" "sleep_limit (demo_world js rs clk) = 9223372036"
  "int_of_str (demo_world js rs clk) = (\<lambda>s. None)"
  by (simp_all add: demo_world_def)



lemma initiate_success_body:
  assumes "replies w = Json (JObj kvs) # rs" and "map_of kvs ''error'' = None"
  shows "initiate w c =
     emit [Post (device_endpoint c) (device_form c)]
       (then_do (raising (py_int (int_of_str w) (dict_get kvs ''interval'' (JInt 5)))) (\<lambda>iv.
        then_do (raising (py_int (int_of_str w) (dict_get kvs ''expires_in'' (JInt 600)))) (\<lambda>ex.
          if \<not> truthy (dict_get kvs ''device_code'' JNull)
             \<or> \<not> truthy (dict_get kvs ''user_code'' JNull)
             \<or> \<not> truthy (py_or (dict_get kvs ''verification_uri'' JNull)
                               (dict_get kvs ''verification_uri_complete'' JNull))
          then ([Print Stderr [Lit ''Missing device_code/user_code/verification_uri''],
                 Print Stdout [Dumps (JObj kvs)]], Stop (Exit 1))
          else emit (instructions
                       (py_or (dict_get kvs ''verification_uri'' JNull)
                              (dict_get kvs ''verification_uri_complete'' JNull))
                       (dict_get kvs ''user_code'' JNull) ex)
                 (case stdin w of
                    None \<Rightarrow> ([], Stop (Uncaught EOFError))
                  | Some line \<Rightarrow>
                      ([], Ret (\<lparr>device_code = dict_get kvs ''device_code'' JNull,
                                 interval = iv, expires_in = ex\<rparr>, rs))))))"
  using assms
  by (cases "truthy (dict_get kvs ''verification_uri'' JNull)";
      cases "truthy (dict_get kvs ''verification_uri_complete'' JNull)";
      cases "truthy (dict_get kvs ''device_code'' JNull)";
      cases "truthy (dict_get kvs ''user_code'' JNull)";
      cases "py_int (int_of_str w) (dict_get kvs ''interval'' (JInt 5))";
      cases "py_int (int_of_str w) (dict_get kvs ''expires_in'' (JInt 600))")
    (simp_all add: initiate_def py_or_def)

section \<open>The claims\<close>

text \<open>
  C1. A token reply without an \<open>error\<close> key ends the run. With \<open>--json\<close> the reply
  itself, unchanged, is handed to \<open>json.dumps(..., indent=2)\<close> and printed to standard
  output, exit status 0. Without the flag, a present and non-empty (truthy)
  \<open>access_token\<close> is printed alone on standard output, exit status 0; an absent one gives
  a message on standard error and exit status 1.
\<close>

theorem token_success_output:
  assumes "map_of kvs ''error'' = None"
    and "\<not> of_int (expires_in da) \<le> now - start"
  shows "poll_loop True c da cap start (now # clk) (Json (JObj kvs) # rs) =
           ([Clock now, Post (token_endpoint c) (token_form c da),
             Print Stdout [Dumps (JObj kvs)]], Stop (Exit 0))
       \<and> (\<forall>tok. map_of kvs ''access_token'' = Some tok \<and> truthy tok \<longrightarrow>
            poll_loop False c da cap start (now # clk) (Json (JObj kvs) # rs) =
              ([Clock now, Post (token_endpoint c) (token_form c da),
                Print Stdout [Str tok]], Stop (Exit 0)))
       \<and> (map_of kvs ''access_token'' = None \<longrightarrow>
            poll_loop False c da cap start (now # clk) (Json (JObj kvs) # rs) =
              ([Clock now, Post (token_endpoint c) (token_form c da),
                Print Stderr [Lit ''No access_token returned'']], Stop (Exit 1)))"
  using assms
  by (simp add: poll_loop_live token_step_json token_step_bare del: poll_loop.simps)

theorem token_success_output_witness:
  "poll_loop True demo_config demo_auth 100 0 [1] [Json (JObj token_ok)] =
     ([Clock 1, Post (token_endpoint demo_config) (token_form demo_config demo_auth),
       Print Stdout [Dumps (JObj token_ok)]], Stop (Exit 0))
   \<and> poll_loop False demo_config demo_auth 100 0 [1] [Json (JObj token_ok)] =
     ([Clock 1, Post (token_endpoint demo_config) (token_form demo_config demo_auth),
       Print Stdout [Str (JStr ''TOK123'')]], Stop (Exit 0))
   \<and> poll_loop False demo_config demo_auth 100 0 [1] [Json (JObj [(''token_type'', JStr ''Bearer'')])] =
     ([Clock 1, Post (token_endpoint demo_config) (token_form demo_config demo_auth),
       Print Stderr [Lit ''No access_token returned'']], Stop (Exit 1))"
proof -
  have live: "\<not> of_int (expires_in demo_auth) \<le> (1::rat) - 0"
    by (simp add: demo_auth_def)
  have a: "map_of token_ok ''error'' = None" by (simp add: token_ok_def)
  have b: "map_of [(''token_type'', JStr ''Bearer'')] ''error'' = None" by simp
  show ?thesis
    using token_success_output [OF a live, of demo_config 100 "[]" "[]"]
      token_success_output [OF b live, of demo_config 100 "[]" "[]"]
    by (simp add: token_ok_def del: poll_loop.simps)
qed


text \<open>
  C10. With \<open>--json\<close> a reply without \<open>error\<close> and without \<open>access_token\<close> is printed,
  exit status 0; the same reply without the flag is refused with exit status 1. The
  check for \<open>access_token\<close> belongs to the bare-token branch only.
\<close>

theorem json_mode_skips_access_token_check:
  assumes "map_of kvs ''error'' = None" and "map_of kvs ''access_token'' = None"
  shows "token_step True cap iv (JObj kvs) = ([Print Stdout [Dumps (JObj kvs)]], Stop (Exit 0))
       \<and> token_step False cap iv (JObj kvs) =
           ([Print Stderr [Lit ''No access_token returned'']], Stop (Exit 1))"
  using assms by (simp add: token_step_json token_step_bare)

theorem json_mode_skips_access_token_check_witness:
  "main (demo_world True [Json (JObj demo_init), Json (JObj [(''token_type'', JStr ''Bearer'')])] [0, 1]) =
     (Post (device_endpoint demo_config) (device_form demo_config)
        # instructions (JStr ''https://auth.example/device'') (JStr ''ABCD-EFGH'') 600
        @ [Clock 0, Clock 1, Post (token_endpoint demo_config)
             (token_form demo_config demo_auth),
           Print Stdout [Dumps (JObj [(''token_type'', JStr ''Bearer'')])]], Stop (Exit 0))"
proof -
  have a: "map_of [(''token_type'', JStr ''Bearer'')] ''error'' = None" by simp
  have b: "map_of [(''token_type'', JStr ''Bearer'')] ''access_token'' = None" by simp
  show ?thesis
    using json_mode_skips_access_token_check [OF a b, of 9223372036 5]
    by (simp add: main_def load_demo_config initiate_def demo_init_def demo_auth_def)
qed




text \<open>
  C3. Every iteration of the poll loop starts by reading the clock. When the time since
  the start of the loop has reached \<open>expires_in\<close> (in particular when it exceeds it),
  the iteration prints the expiration message to standard error and the program ends
  with exit status 1, whatever replies are waiting: no request is issued. And in every
  trace of the loop, a request comes only directly after a clock reading that found the
  code still valid, and the expiration message comes only directly after a clock reading,
  never between a request and the sleep or exit that ends its iteration.
\<close>

theorem expiry_checked_before_request:
  "(of_int (expires_in da) \<le> now - start \<longrightarrow>
      poll_loop js c da cap start (now # clk) rs =
        ([Clock now, Print Stderr [Lit ''Device code expired. Run the script again.'']],
         Stop (Exit 1)))
   \<and> top_of_iteration (expires_in da) start (fst (poll_loop js c da cap start clk rs))"
  using poll_loop_checks_first [of da start js c cap clk rs]
  by (simp add: expired_msg_def)

theorem expiry_checked_before_request_witness:
  "of_int (expires_in demo_auth) \<le> (700::rat) - 0
   \<and> poll_loop False demo_config demo_auth 100 0 [700, 701] [Json (JObj token_ok)] =
       ([Clock 700, Print Stderr [Lit ''Device code expired. Run the script again.'']],
        Stop (Exit 1))
   \<and> top_of_iteration 600 0
       [Clock 1, Post (token_endpoint demo_config) (token_form demo_config demo_auth),
        Sleep 5, Clock 700,
        Print Stderr [Lit ''Device code expired. Run the script again.'']]"
proof -
  have x: "of_int (expires_in demo_auth) \<le> (700::rat) - 0"
    by (simp add: demo_auth_def)
  have run: "fst (poll_loop False demo_config demo_auth 100 0 [1, 700]
               [Json (JObj pending), Json (JObj token_ok)]) =
       [Clock 1, Post (token_endpoint demo_config) (token_form demo_config demo_auth),
        Sleep 5, Clock 700,
        Print Stderr [Lit ''Device code expired. Run the script again.'']]"
    by (simp add: demo_auth_def pending_def token_step_def py_sleep_def expired_msg_def)
  have ex: "expires_in demo_auth = 600"
    by (simp add: demo_auth_def)
  from expiry_checked_before_request
         [of demo_auth 700 0 False demo_config 100 "[701]" "[Json (JObj token_ok)]"]
       expiry_checked_before_request
         [of demo_auth 700 0 False demo_config 100 "[1, 700]"
             "[Json (JObj pending), Json (JObj token_ok)]"]
  show ?thesis
    unfolding run ex using x by (simp del: poll_loop.simps top_of_iteration.simps)
qed




text \<open>
  C5. When the command line is accepted and one of \<open>KEYCLOAK_URL\<close>, \<open>REALM\<close>,
  \<open>CLIENT_ID\<close>, \<open>CLIENT_SECRET\<close> is unset or empty, the whole run is one line on
  standard error, naming a required variable, and exit status 1: no request is issued.
  When the four are set and \<open>SCOPE\<close> is unset, the run starts with the device request,
  whose \<open>scope\<close> field is \<open>openid email profile groups\<close>.
\<close>

theorem missing_env_fails_fast:
  assumes "cli w = Parsed js"
  shows "(name \<in> set required \<and> (environ w name = None \<or> environ w name = Some []) \<longrightarrow>
            (\<exists>m \<in> set required.
               main w = ([Print Stderr [Lit (m @ '' is required'')]], Stop (Exit 1))))
       \<and> (environ w ''KEYCLOAK_URL'' = Some u \<and> u \<noteq> [] \<and> environ w ''REALM'' = Some r \<and> r \<noteq> []
            \<and> environ w ''CLIENT_ID'' = Some i \<and> i \<noteq> []
            \<and> environ w ''CLIENT_SECRET'' = Some s \<and> s \<noteq> []
            \<and> environ w ''SCOPE'' = None \<longrightarrow>
            (\<exists>sc evs res.
               main w =
                 (Post (device_endpoint
                          \<lparr>keycloak_url = u, realm = r, client_id = i, client_secret = s,
                           scope = sc\<rparr>)
                    [(''client_id'', JStr i), (''client_secret'', JStr s),
                     (''scope'', JStr ''openid email profile groups'')] # evs, res)))"
proof (intro conjI impI)
  assume "name \<in> set required \<and> (environ w name = None \<or> environ w name = Some [])"
  then obtain m where "m \<in> set required"
    and "load_config (environ w) = ([Print Stderr [Lit (m @ '' is required'')]], Stop (Exit 1))"
    using load_config_missing [of name "environ w"] by blast
  then show "\<exists>m \<in> set required.
      main w = ([Print Stderr [Lit (m @ '' is required'')]], Stop (Exit 1))"
    using assms by (auto simp: main_def)
next
  let ?c = "\<lparr>keycloak_url = u, realm = r, client_id = i, client_secret = s,
             scope = ''openid email profile groups''\<rparr>"
  assume a: "environ w ''KEYCLOAK_URL'' = Some u \<and> u \<noteq> [] \<and> environ w ''REALM'' = Some r \<and> r \<noteq> []
            \<and> environ w ''CLIENT_ID'' = Some i \<and> i \<noteq> []
            \<and> environ w ''CLIENT_SECRET'' = Some s \<and> s \<noteq> []
            \<and> environ w ''SCOPE'' = None"
  then have cfg: "load_config (environ w) = ([], Ret ?c)"
    using load_config_ok [of "environ w" u r i s] by simp
  obtain evs res where ini:
    "initiate w ?c = (Post (device_endpoint ?c) (device_form ?c) # evs, res)"
    using initiate_emits by blast
  have "\<exists>evs' res'. main w = (Post (device_endpoint ?c) (device_form ?c) # evs', res')"
    using assms cfg ini
    by (cases res) (auto simp: main_def emit_def split: prod.splits list.splits)
  then show "\<exists>sc evs res.
               main w =
                 (Post (device_endpoint
                          \<lparr>keycloak_url = u, realm = r, client_id = i, client_secret = s,
                           scope = sc\<rparr>)
                    [(''client_id'', JStr i), (''client_secret'', JStr s),
                     (''scope'', JStr ''openid email profile groups'')] # evs, res)"
    by (auto simp: device_form_def)
qed

theorem missing_env_fails_fast_witness:
  "main (demo_world False [Json (JObj demo_init)] [0]\<lparr>environ := demo_env(''REALM'' \<mapsto> [])\<rparr>)
     = ([Print Stderr [Lit ''REALM is required'']], Stop (Exit 1))
   \<and> fst (main (demo_world False [] [])) =
       [Post ''https://kc.example/realms/r1/protocol/openid-connect/auth/device''
          [(''client_id'', JStr ''cid''), (''client_secret'', JStr ''sec''),
           (''scope'', JStr ''openid email profile groups'')]]"
proof -
  let ?w = "demo_world False [Json (JObj demo_init)] [0]\<lparr>environ := demo_env(''REALM'' \<mapsto> [])\<rparr>"
  have p: "cli ?w = Parsed False" by simp
  have q: "cli (demo_world False [] []) = Parsed False" by simp
  from missing_env_fails_fast [OF p, of "''REALM''"]
       missing_env_fails_fast [OF q, of _ "''https://kc.example/''" "''r1''" "''cid''" "''sec''"]
  show ?thesis
    by (simp add: main_def load_config_def require_env_def demo_env_def initiate_def
        device_endpoint_def device_form_def rstrip_def)
qed

text \<open>
  C6, as the code has it. The program converts \<open>interval\<close> and \<open>expires_in\<close> with
  \<open>int\<close> (lines 71 and 72) before it looks whether the codes are there (line 74). So:
  when the initiation reply has no \<open>error\<close> key, \<open>int\<close> accepts its \<open>interval\<close> and
  \<open>expires_in\<close> where they are present, and \<open>device_code\<close>, \<open>user_code\<close> or both
  \<open>verification_uri\<close> and \<open>verification_uri_complete\<close> are missing, the run is the
  device request, the diagnostic on standard error, the dump of the whole reply on
  standard output, and exit status 1: the poll loop is not entered.
\<close>

theorem incomplete_initiation_reported:
  assumes "cli w = Parsed js" and "load_config (environ w) = ([], Ret c)"
    and "replies w = Json (JObj kvs) # rs" and "map_of kvs ''error'' = None"
    and "\<forall>v. map_of kvs ''interval'' = Some v \<longrightarrow> (\<exists>n. py_int (int_of_str w) v = Inr n)"
    and "\<forall>v. map_of kvs ''expires_in'' = Some v \<longrightarrow> (\<exists>n. py_int (int_of_str w) v = Inr n)"
    and "map_of kvs ''device_code'' = None \<or> map_of kvs ''user_code'' = None
         \<or> (map_of kvs ''verification_uri'' = None
             \<and> map_of kvs ''verification_uri_complete'' = None)"
  shows "main w =
           ([Post (device_endpoint c) (device_form c),
             Print Stderr [Lit ''Missing device_code/user_code/verification_uri''],
             Print Stdout [Dumps (JObj kvs)]], Stop (Exit 1))"
proof -
  obtain iv where iv: "py_int (int_of_str w) (dict_get kvs ''interval'' (JInt 5)) = Inr iv"
    using assms(5) by (cases "map_of kvs ''interval''") auto
  obtain ex where ex: "py_int (int_of_str w) (dict_get kvs ''expires_in'' (JInt 600)) = Inr ex"
    using assms(6) by (cases "map_of kvs ''expires_in''") auto
  have lacks: "\<not> truthy (dict_get kvs ''device_code'' JNull)
      \<or> \<not> truthy (dict_get kvs ''user_code'' JNull)
      \<or> \<not> truthy (py_or (dict_get kvs ''verification_uri'' JNull)
                        (dict_get kvs ''verification_uri_complete'' JNull))"
    using assms(7) by (auto simp: py_or_def)
  have "initiate w c =
           ([Post (device_endpoint c) (device_form c),
             Print Stderr [Lit ''Missing device_code/user_code/verification_uri''],
             Print Stdout [Dumps (JObj kvs)]], Stop (Exit 1))"
    unfolding initiate_success_body [OF assms(3,4)] using lacks by (simp add: iv ex)
  then show ?thesis
    using assms(1,2) by (simp add: main_def)
qed

theorem incomplete_initiation_reported_witness:
  "main (demo_world False
      [Json (JObj [(''user_code'', JStr ''ABCD-EFGH''),
                   (''verification_uri_complete'', JStr ''https://auth.example/device?c=1''),
                   (''interval'', JInt 5)]), Json (JObj token_ok)] [0, 1]) =
     ([Post (device_endpoint demo_config) (device_form demo_config),
       Print Stderr [Lit ''Missing device_code/user_code/verification_uri''],
       Print Stdout
         [Dumps (JObj [(''user_code'', JStr ''ABCD-EFGH''),
                       (''verification_uri_complete'', JStr ''https://auth.example/device?c=1''),
                       (''interval'', JInt 5)])]], Stop (Exit 1))"
proof -
  let ?kvs = "[(''user_code'', JStr ''ABCD-EFGH''),
               (''verification_uri_complete'', JStr ''https://auth.example/device?c=1''),
               (''interval'', JInt 5)]"
  let ?w = "demo_world False [Json (JObj ?kvs), Json (JObj token_ok)] [0, 1]"
  have 1: "cli ?w = Parsed False" by simp
  have 2: "load_config (environ ?w) = ([], Ret demo_config)" by (simp add: load_demo_config)
  have 3: "replies ?w = Json (JObj ?kvs) # [Json (JObj token_ok)]" by simp
  have 4: "map_of ?kvs ''error'' = None" by simp
  have 5: "\<forall>v. map_of ?kvs ''interval'' = Some v \<longrightarrow> (\<exists>n. py_int (int_of_str ?w) v = Inr n)"
    by simp
  have 6: "\<forall>v. map_of ?kvs ''expires_in'' = Some v \<longrightarrow> (\<exists>n. py_int (int_of_str ?w) v = Inr n)"
    by simp
  have 7: "map_of ?kvs ''device_code'' = None \<or> map_of ?kvs ''user_code'' = None
         \<or> (map_of ?kvs ''verification_uri'' = None
             \<and> map_of ?kvs ''verification_uri_complete'' = None)"
    by simp
  show ?thesis
    by (rule incomplete_initiation_reported [OF 1 2 3 4 5 6 7])
qed

text \<open>
  C6 as stated fails on the reply
  \<open>{"user_code": "ABCD-EFGH", "verification_uri": "https://auth.example/device", "interval": null}\<close>:
  it has no \<open>error\<close> key and no \<open>device_code\<close>, but \<open>int(None)\<close> on line 71 raises
  \<open>TypeError\<close> before line 74 is reached. Neither the diagnostic nor the reply is
  printed; the interpreter ends the process with a traceback.
\<close>

theorem incomplete_initiation_counterexample:
  "main (demo_world False
      [Json (JObj [(''user_code'', JStr ''ABCD-EFGH''),
                   (''verification_uri'', JStr ''https://auth.example/device''),
                   (''interval'', JNull)])] [0]) =
     ([Post (device_endpoint demo_config) (device_form demo_config)],
      Stop (Uncaught TypeError))"
  by (simp add: main_def load_demo_config initiate_def dict_get_def)

text \<open>
  C7. On a complete initiation reply the poll loop runs with \<open>interval = 5\<close> when the
  reply has no \<open>interval\<close> field and with \<open>int\<close> of the field when it has one, and with
  \<open>expires_in = 600\<close> when the reply has no \<open>expires_in\<close> field and with \<open>int\<close> of the
  field when it has one. These are the values the loop sleeps for and compares the
  clock with, and the second is the one printed in the instructions.
\<close>

theorem interval_and_expiry_defaults:
  assumes "cli w = Parsed js" and "load_config (environ w) = ([], Ret c)"
    and "replies w = Json (JObj kvs) # rs" and "map_of kvs ''error'' = None"
    and "dc = dict_get kvs ''device_code'' JNull" and "truthy dc"
    and "uc = dict_get kvs ''user_code'' JNull" and "truthy uc"
    and "uri = py_or (dict_get kvs ''verification_uri'' JNull)
                 (dict_get kvs ''verification_uri_complete'' JNull)" and "truthy uri"
    and "stdin w = Some line" and "clock w = start # clk"
    and "case map_of kvs ''interval'' of
           None \<Rightarrow> iv = 5 | Some v \<Rightarrow> py_int (int_of_str w) v = Inr iv"
    and "case map_of kvs ''expires_in'' of
           None \<Rightarrow> ex = 600 | Some v \<Rightarrow> py_int (int_of_str w) v = Inr ex"
  shows "main w =
           emit (Post (device_endpoint c) (device_form c) # instructions uri uc ex
                   @ [Clock start])
             (poll_loop js c \<lparr>device_code = dc, interval = iv, expires_in = ex\<rparr>
                (sleep_limit w) start clk rs)"
proof -
  have iv: "py_int (int_of_str w) (dict_get kvs ''interval'' (JInt 5)) = Inr iv"
    using assms(13) by (cases "map_of kvs ''interval''") auto
  have ex: "py_int (int_of_str w) (dict_get kvs ''expires_in'' (JInt 600)) = Inr ex"
    using assms(14) by (cases "map_of kvs ''expires_in''") auto
  have "initiate w c =
          (Post (device_endpoint c) (device_form c) # instructions uri uc ex,
           Ret (\<lparr>device_code = dc, interval = iv, expires_in = ex\<rparr>, rs))"
    unfolding initiate_success_body [OF assms(3,4)]
    using assms(5-11) by (simp add: iv ex)
  then show ?thesis
    using assms(1,2,12) by (simp add: main_def)
qed

theorem interval_and_expiry_defaults_witness:
  "main (demo_world False
      [Json (JObj [(''device_code'', JStr ''D1''), (''user_code'', JStr ''ABCD-EFGH''),
                   (''verification_uri_complete'', JStr ''https://auth.example/device?c=1''),
                   (''expires_in'', JInt 30)]),
       Json (JObj pending)] [0, 1, 40]) =
     (Post (device_endpoint demo_config) (device_form demo_config)
        # instructions (JStr ''https://auth.example/device?c=1'') (JStr ''ABCD-EFGH'') 30
        @ [Clock 0, Clock 1,
           Post (token_endpoint demo_config)
             (token_form demo_config \<lparr>device_code = JStr ''D1'', interval = 5, expires_in = 30\<rparr>),
           Sleep 5, Clock 40,
           Print Stderr [Lit ''Device code expired. Run the script again.'']],
      Stop (Exit 1))"
proof -
  let ?kvs = "[(''device_code'', JStr ''D1''), (''user_code'', JStr ''ABCD-EFGH''),
               (''verification_uri_complete'', JStr ''https://auth.example/device?c=1''),
               (''expires_in'', JInt 30)]"
  let ?w = "demo_world False [Json (JObj ?kvs), Json (JObj pending)] [0, 1, 40]"
  have 1: "cli ?w = Parsed False" by simp
  have 2: "load_config (environ ?w) = ([], Ret demo_config)" by (simp add: load_demo_config)
  have 3: "replies ?w = Json (JObj ?kvs) # [Json (JObj pending)]" by simp
  have 4: "map_of ?kvs ''error'' = None" by simp
  have 5: "JStr ''D1'' = dict_get ?kvs ''device_code'' JNull" by (simp add: dict_get_def)
  have 6: "truthy (JStr ''D1'')" by simp
  have 7: "JStr ''ABCD-EFGH'' = dict_get ?kvs ''user_code'' JNull" by (simp add: dict_get_def)
  have 8: "truthy (JStr ''ABCD-EFGH'')" by simp
  have 9: "JStr ''https://auth.example/device?c=1'' =
             py_or (dict_get ?kvs ''verification_uri'' JNull)
               (dict_get ?kvs ''verification_uri_complete'' JNull)"
    by (simp add: dict_get_def py_or_def)
  have 10: "truthy (JStr ''https://auth.example/device?c=1'')" by simp
  have 11: "stdin ?w = Some []" by simp
  have 12: "clock ?w = 0 # [1, 40]" by simp
  have 13: "case map_of ?kvs ''interval'' of
              None \<Rightarrow> (5::int) = 5 | Some v \<Rightarrow> py_int (int_of_str ?w) v = Inr 5"
    by simp
  have 14: "case map_of ?kvs ''expires_in'' of
              None \<Rightarrow> (30::int) = 600 | Some v \<Rightarrow> py_int (int_of_str ?w) v = Inr 30"
    by simp
  show ?thesis
    unfolding interval_and_expiry_defaults [OF 1 2 3 4 5 6 7 8 9 10 11 12 13 14]
    by (simp add: pending_def token_step_def py_sleep_def expired_msg_def)
qed

text \<open>
  C8. The base URL is some text \<open>b\<close> that does not end in a slash, followed by any
  number of slashes; \<open>rstrip('/')\<close> removes them all. The device-authorization endpoint
  is \<open>b\<close> followed by \<open>/realms/{realm}/protocol/openid-connect/auth/device\<close>, the token
  endpoint is \<open>b\<close> followed by \<open>/realms/{realm}/protocol/openid-connect/token\<close>.
\<close>

theorem endpoints_from_base:
  "\<exists>b n. keycloak_url c = b @ replicate n (CHR ''/'')
       \<and> (b = [] \<or> last b \<noteq> CHR ''/'')
       \<and> device_endpoint c =
           b @ ''/realms/'' @ realm c @ ''/protocol/openid-connect/auth/device''
       \<and> token_endpoint c =
           b @ ''/realms/'' @ realm c @ ''/protocol/openid-connect/token''"
proof -
  let ?p = "\<lambda>ch. ch = CHR ''/''"
  let ?r = "rev (keycloak_url c)"
  let ?b = "rev (dropWhile ?p ?r)"
  have tk: "takeWhile ?p ?r = replicate (length (takeWhile ?p ?r)) (CHR ''/'')"
    by (rule replicate_length_same [symmetric]) (auto dest: set_takeWhileD)
  have "keycloak_url c = rev (takeWhile ?p ?r @ dropWhile ?p ?r)"
    by simp
  also have "\<dots> = ?b @ rev (takeWhile ?p ?r)"
    by (simp only: rev_append)
  also have "\<dots> = ?b @ replicate (length (takeWhile ?p ?r)) (CHR ''/'')"
    using tk by (metis rev_replicate)
  finally have split: "keycloak_url c = ?b @ replicate (length (takeWhile ?p ?r)) (CHR ''/'')" .
  have nolast: "?b = [] \<or> last ?b \<noteq> CHR ''/''"
  proof (cases "dropWhile ?p ?r")
    case Nil
    then show ?thesis by simp
  next
    case (Cons x xs)
    then have "\<not> ?p x" using hd_dropWhile [of ?p ?r] by (metis list.sel(1) list.simps(3))
    then show ?thesis using Cons by (simp add: last_rev)
  qed
  have strip: "rstrip ''/'' (keycloak_url c) = ?b"
    by (simp add: rstrip_def)
  have dev: "device_endpoint c =
      ?b @ ''/realms/'' @ realm c @ ''/protocol/openid-connect/auth/device''"
    by (simp only: device_endpoint_def strip)
  have tok: "token_endpoint c =
      ?b @ ''/realms/'' @ realm c @ ''/protocol/openid-connect/token''"
    by (simp only: token_endpoint_def strip)
  from split nolast dev tok show ?thesis by blast
qed

theorem endpoints_from_base_witness:
  "device_endpoint (demo_config\<lparr>keycloak_url := ''https://kc.example//''\<rparr>) =
     ''https://kc.example/realms/r1/protocol/openid-connect/auth/device''
   \<and> token_endpoint (demo_config\<lparr>keycloak_url := ''https://kc.example//''\<rparr>) =
     ''https://kc.example/realms/r1/protocol/openid-connect/token''"
  using endpoints_from_base [of "demo_config\<lparr>keycloak_url := ''https://kc.example//''\<rparr>"]
  by (simp add: device_endpoint_def token_endpoint_def rstrip_def demo_config_def)

text \<open>
  C9, as the code has it. When \<open>urlopen\<close> delivers a body that decodes as UTF-8 and
  \<open>json.loads\<close> rejects the text, \<open>post_form\<close> prints \<open>Non-JSON response:\<close> and the
  text to standard output and ends the process with exit status 1: it returns nothing.
  So it is at the initiation endpoint, where the run is the device request and the two
  lines, and at the token endpoint, on an iteration whose expiry check passed.
\<close>

theorem post_form_non_json:
  "post_form url data (Non_json payload # rs) =
     ([Post url data, Print Stdout [Lit ''Non-JSON response:''],
       Print Stdout [Lit payload]], Stop (Exit 1))
   \<and> (cli w = Parsed js \<and> load_config (environ w) = ([], Ret c)
        \<and> replies w = Non_json payload # rs \<longrightarrow>
      main w =
        ([Post (device_endpoint c) (device_form c),
          Print Stdout [Lit ''Non-JSON response:''], Print Stdout [Lit payload]],
         Stop (Exit 1)))
   \<and> (\<not> of_int (expires_in da) \<le> now - start \<longrightarrow>
      poll_loop js c da cap start (now # clk) (Non_json payload # rs) =
        ([Clock now, Post (token_endpoint c) (token_form c da),
          Print Stdout [Lit ''Non-JSON response:''], Print Stdout [Lit payload]],
         Stop (Exit 1)))"
  by (simp add: main_def initiate_def)

theorem post_form_non_json_witness:
  "main (demo_world False [Non_json ''<html>Bad Gateway</html>''] [0]) =
     ([Post (device_endpoint demo_config) (device_form demo_config),
       Print Stdout [Lit ''Non-JSON response:''],
       Print Stdout [Lit ''<html>Bad Gateway</html>'']], Stop (Exit 1))
   \<and> poll_loop False demo_config demo_auth 100 0 [1] [Non_json ''<html>Bad Gateway</html>''] =
     ([Clock 1, Post (token_endpoint demo_config) (token_form demo_config demo_auth),
       Print Stdout [Lit ''Non-JSON response:''],
       Print Stdout [Lit ''<html>Bad Gateway</html>'']], Stop (Exit 1))"
proof -
  have live: "\<not> of_int (expires_in demo_auth) \<le> (1::rat) - 0"
    by (simp add: demo_auth_def)
  from post_form_non_json
         [of "device_endpoint demo_config" "device_form demo_config"
             "''<html>Bad Gateway</html>''" "[]"
             "demo_world False [Non_json ''<html>Bad Gateway</html>''] [0]" False demo_config
             demo_auth 1 0 100 "[]"]
  show ?thesis
    using live by (simp add: load_demo_config del: poll_loop.simps)
qed

text \<open>
  C9 as stated fails on a body that is not UTF-8, which is not valid JSON either: on the
  single byte \<open>0xFF\<close>, \<open>decode("utf-8")\<close> on line 28 raises \<open>UnicodeDecodeError\<close>
  outside the \<open>try\<close> of line 29. The body is not printed; the process ends with a
  traceback.
\<close>

theorem post_form_non_json_counterexample:
  "post_form (device_endpoint demo_config) (device_form demo_config) [Undecodable [CHR 0xFF]] =
     ([Post (device_endpoint demo_config) (device_form demo_config)],
      Stop (Uncaught UnicodeDecodeError))"
  by simp

end
